theory Spec2Isabelle
  imports Main "HOL-Library.Sublist" "HOL-Library.AList"
begin

section \<open>The event-dispatch core of the agent (cattle/agent/event.py, cattle/progress.py)\<close>

text \<open>
  The Python code talks to collaborators that are not part of the two modules: the
  filesystem (the stamp file and \<^verbatim>\<open>/proc\<close>), the two bounded queues of
  \<^verbatim>\<open>cattle.concurrency\<close>, the marshaller, the executor, the publisher,
  \<^verbatim>\<open>utils.reply\<close> and \<^verbatim>\<open>uuid.uuid4\<close>. What each of them answers at
  a call is an input of the model (a field of an environment record), and the code's
  reaction to every answer, including every exception, is a branch of the definitions.
\<close>

subsection \<open>Values, requests, responses, exceptions and the log\<close>

text \<open>
  A response is a dictionary (\<^verbatim>\<open>resp['transitioning'] = 'error'\<close>): an association
  list from keys to values, written with \<^const>\<open>AList.update\<close> and read with
  \<^const>\<open>map_of\<close>. A value may itself be a dictionary, as the data of a nested reply is.
\<close>

datatype val = VNone | VStr string | VInt int | VDict "(string \<times> val) list"

type_synonym response = "(string \<times> val) list"

record request =
  req_id :: string
  req_name :: string
  req_data :: val

text \<open>
  The exception classes that the handlers of the code tell apart, in the order of the
  \<^verbatim>\<open>except\<close> clauses of the worker: \<^verbatim>\<open>Empty\<close> of the queue,
  \<^verbatim>\<open>FailedToLock\<close>, any other \<^verbatim>\<open>Exception\<close> (with its \<^verbatim>\<open>str\<close>), and what
  \<^verbatim>\<open>except Exception\<close> does not catch (\<^verbatim>\<open>SystemExit\<close>, \<^verbatim>\<open>KeyboardInterrupt\<close>).
\<close>

datatype fault =
    Empty
  | FailedToLock string
  | Error string
  | BaseError string

datatype log_entry =
    Log_info string
  | Log_error string
  | Log_exception string
  | Log_request request string

datatype loop_ctl = Continue | Break | Raise fault

text \<open>
  One state for the process: the module global \<^verbatim>\<open>_STAMP_TS\<close>, the locals
  \<^verbatim>\<open>drop_count\<close> and \<^verbatim>\<open>ping_drop\<close> of \<^verbatim>\<open>EventClient._run\<close>, the lines
  the two queues accepted, the responses handed to \<^verbatim>\<open>publisher.publish\<close> and the log.
  A modification time is a number compared with \<^verbatim>\<open>==\<close> only.
\<close>

type_synonym mtime = int

record agent_state =
  stamp_ts :: "mtime option"
  drop_count :: int
  ping_drop :: int
  queue :: "string list"
  ping_queue :: "string list"
  published :: "response list"
  logged :: "log_entry list"

definition init_state :: agent_state where
  "init_state = \<lparr>stamp_ts = None, drop_count = 0, ping_drop = 0, queue = [],
     ping_queue = [], published = [], logged = []\<rparr>"

definition log_to :: "log_entry \<Rightarrow> agent_state \<Rightarrow> agent_state" where
  "log_to e s = s\<lparr>logged := logged s @ [e]\<rparr>"

subsection \<open>Liveness: \<^verbatim>\<open>_check_ts\<close> and \<^verbatim>\<open>_should_run\<close>\<close>

text \<open>
  What the filesystem shows at one check: the modification time of the stamp file
  (\<open>None\<close> when \<^verbatim>\<open>os.path.exists(stamp_file)\<close> is false) and whether
  \<^verbatim>\<open>/proc/<pid>\<close> exists.
\<close>

record fs_obs =
  stamp_mtime :: "mtime option"
  proc_exists :: bool

definition check_ts :: "mtime option \<Rightarrow> agent_state \<Rightarrow> bool \<times> agent_state" where
  "check_ts stamp s =
     (case stamp of
        None \<Rightarrow> (True, s)
      | Some ts \<Rightarrow>
          (let s' = (if stamp_ts s = None then s\<lparr>stamp_ts := Some ts\<rparr> else s)
           in (stamp_ts s' = Some ts, s')))"

definition should_run :: "string option \<Rightarrow> fs_obs \<Rightarrow> agent_state \<Rightarrow> bool \<times> agent_state" where
  "should_run pid obs s =
     (case check_ts (stamp_mtime obs) s of
        (ok, s') \<Rightarrow>
          if \<not> ok then (False, s')
          else (case pid of None \<Rightarrow> (True, s') | Some p \<Rightarrow> (proc_exists obs, s')))"

text \<open>Successive checks in one process, each with what the filesystem shows then.\<close>

fun should_run_seq :: "string option \<Rightarrow> fs_obs list \<Rightarrow> agent_state \<Rightarrow> bool list \<times> agent_state" where
  "should_run_seq pid [] s = ([], s)"
| "should_run_seq pid (o1 # os) s =
     (case should_run pid o1 s of
        (b, s') \<Rightarrow> (case should_run_seq pid os s' of (bs, s'') \<Rightarrow> (b # bs, s'')))"

subsection \<open>The read loop of \<^verbatim>\<open>EventClient._run\<close>\<close>

text \<open>\<^verbatim>\<open>line.strip()\<close> removes the whitespace characters at both ends.\<close>

definition is_space :: "char \<Rightarrow> bool" where
  "is_space c = (c \<in> set [CHR '' '', CHR 0x09, CHR 0x0A, CHR 0x0B, CHR 0x0C, CHR 0x0D])"

definition strip :: "string \<Rightarrow> string" where
  "strip s = rev (dropWhile is_space (rev (dropWhile is_space s)))"

text \<open>\<^verbatim>\<open>needle in line\<close>: the needle occurs as a contiguous substring.\<close>

fun contains :: "string \<Rightarrow> string \<Rightarrow> bool" where
  "contains needle [] = (needle = [])"
| "contains needle (c # cs) = (prefix needle (c # cs) \<or> contains needle cs)"

definition ping_marker :: string where
  "ping_marker = CHR 0x22 # ''ping''"

record config =
  max_dropped_requests :: int
  max_dropped_ping :: int

text \<open>
  One line of the stream, with what the environment does while it is handled: whether
  the non-blocking \<^verbatim>\<open>put\<close> raises \<^verbatim>\<open>Full\<close>, and what the filesystem shows at the
  liveness check that follows.
\<close>

record stream_item =
  raw_line :: string
  put_full :: bool
  line_obs :: fs_obs

text \<open>
  The \<^verbatim>\<open>try\<close> block of the loop body: whether it raises \<^verbatim>\<open>Full\<close> (what a
  \<^verbatim>\<open>put\<close> with \<^verbatim>\<open>block=False\<close> raises on a full queue), and the state.
\<close>

definition enqueue_line :: "string \<Rightarrow> bool \<Rightarrow> agent_state \<Rightarrow> bool \<times> agent_state" where
  "enqueue_line ln full s =
     (let ping = contains ping_marker ln in
      if length ln > 0 then
        (if ping then
           (if full then (True, s)
            else (False, s\<lparr>ping_queue := ping_queue s @ [ln], ping_drop := 0\<rparr>))
         else
           (if full then (True, s)
            else (False, s\<lparr>queue := queue s @ [ln]\<rparr>)))
      else (False, s))"

text \<open>The \<^verbatim>\<open>except Full\<close> handler: the counters, the maximum and the comparison.\<close>

definition on_full :: "config \<Rightarrow> string \<Rightarrow> agent_state \<Rightarrow> loop_ctl \<times> agent_state" where
  "on_full cfg ln s =
     (let ping = contains ping_marker ln;
          s1 = log_to (Log_info (''Dropping request '' @ ln)) s;
          s2 = s1\<lparr>drop_count := drop_count s1 + 1\<rparr>;
          max0 = max_dropped_requests cfg;
          s3 = (if ping then s2\<lparr>ping_drop := ping_drop s2 + 1\<rparr> else s2);
          max1 = (if ping then max_dropped_ping cfg else max0)
      in if drop_count s3 > max1
         then (Break, log_to (Log_error ''Max dropped requests exceeded'') s3)
         else (Continue, s3))"

definition check_alive :: "string option \<Rightarrow> fs_obs \<Rightarrow> agent_state \<Rightarrow> loop_ctl \<times> agent_state" where
  "check_alive ppid obs s =
     (case should_run ppid obs s of
        (ok, s') \<Rightarrow>
          if \<not> ok
          then (Break, log_to (Log_info ''Parent process has died or stamp changed, exiting'') s')
          else (Continue, s'))"

definition read_line :: "config \<Rightarrow> string option \<Rightarrow> stream_item \<Rightarrow> agent_state \<Rightarrow> loop_ctl \<times> agent_state" where
  "read_line cfg ppid it s =
     (let ln = strip (raw_line it) in
      case enqueue_line ln (put_full it) s of
        (False, s1) \<Rightarrow> check_alive ppid (line_obs it) s1
      | (True, s1) \<Rightarrow>
          (case on_full cfg ln s1 of
             (Continue, s2) \<Rightarrow> check_alive ppid (line_obs it) s2
           | (c, s2) \<Rightarrow> (c, s2)))"

text \<open>
  The \<^verbatim>\<open>for\<close> loop over \<^verbatim>\<open>r.iter_lines\<close>. The stream ends after finitely many
  lines, either exhausted (\<open>None\<close>) or with an exception of the HTTP library, which
  no handler of the loop catches. The result is the exception that leaves the loop, if any.
\<close>

fun read_loop :: "config \<Rightarrow> string option \<Rightarrow> stream_item list \<Rightarrow> fault option \<Rightarrow> agent_state
    \<Rightarrow> fault option \<times> agent_state" where
  "read_loop cfg ppid [] fin s = (fin, s)"
| "read_loop cfg ppid (it # its) fin s =
     (case read_line cfg ppid it s of
        (Continue, s') \<Rightarrow> read_loop cfg ppid its fin s'
      | (Break, s') \<Rightarrow> (None, s')
      | (Raise f, s') \<Rightarrow> (Some f, s'))"

subsection \<open>The worker: \<^verbatim>\<open>_worker_main\<close> and \<^verbatim>\<open>_worker\<close>\<close>

text \<open>
  What the collaborators answer during one iteration of \<^verbatim>\<open>while True\<close>:
  \<^verbatim>\<open>queue.get(True, 5)\<close> (a line, or \<^verbatim>\<open>Empty\<close> after the timeout),
  \<^verbatim>\<open>marshaller.from_string\<close>, \<^verbatim>\<open>agent.execute\<close> (a response or \<^verbatim>\<open>None\<close>),
  \<^verbatim>\<open>publisher.publish\<close> (\<open>None\<close>: it returns), \<^verbatim>\<open>utils.reply\<close> (with its
  optional data argument; it may answer \<^verbatim>\<open>None\<close>, which the handler tests),
  \<^verbatim>\<open>str(uuid.uuid4())\<close>, and the filesystem at the liveness check.
\<close>

record worker_env =
  queue_get :: "fault + string"
  from_string :: "string \<Rightarrow> fault + request"
  execute :: "request \<Rightarrow> fault + response option"
  publish :: "response \<Rightarrow> fault option"
  reply :: "request \<Rightarrow> val option \<Rightarrow> response option"
  uuid4 :: string
  worker_obs :: fs_obs

definition publish_to :: "worker_env \<Rightarrow> response \<Rightarrow> agent_state \<Rightarrow> fault option \<times> agent_state" where
  "publish_to env resp s = (publish env resp, s\<lparr>published := published s @ [resp]\<rparr>)"

text \<open>
  The outer \<^verbatim>\<open>try\<close> block (lines 79 to 98): the exception it raises if any, the
  value of \<^verbatim>\<open>req\<close> at that moment, and the state. The inner \<^verbatim>\<open>finally\<close> logs the
  end of the request whether \<^verbatim>\<open>execute\<close> or \<^verbatim>\<open>publish\<close> raised or not (the
  duration it prints is not modelled).
\<close>

definition worker_try :: "string \<Rightarrow> worker_env \<Rightarrow> agent_state
    \<Rightarrow> fault option \<times> request option \<times> agent_state" where
  "worker_try worker_name env s =
     (case queue_get env of
        Inl f \<Rightarrow> (Some f, None, s)
      | Inr line \<Rightarrow>
          (case from_string env line of
             Inl f \<Rightarrow> (Some f, None, s)
           | Inr req \<Rightarrow>
               (let s1 = log_to (Log_request req (''Request: '' @ line)) s;
                    s2 = log_to (Log_request req (worker_name @ '' : Starting request ''
                           @ req_id req @ '' for '' @ req_name req)) s1;
                    (raised, s3) =
                      (case execute env req of
                         Inl f \<Rightarrow> (Some f, s2)
                       | Inr None \<Rightarrow> (None, s2)
                       | Inr (Some resp) \<Rightarrow> publish_to env resp s2);
                    s4 = log_to (Log_request req (worker_name @ '' : Done request ''
                           @ req_id req @ '' for '' @ req_name req)) s3
                in (raised, Some req, s4))))"

definition alive_or_break :: "string option \<Rightarrow> worker_env \<Rightarrow> agent_state \<Rightarrow> loop_ctl \<times> agent_state" where
  "alive_or_break ppid env s =
     (case should_run ppid (worker_obs env) s of
        (ok, s') \<Rightarrow> (if \<not> ok then Break else Continue, s'))"

definition error_reply :: "string \<Rightarrow> string \<Rightarrow> response \<Rightarrow> response" where
  "error_reply error_id descr resp =
     AList.update ''transitioningInternalMessage'' (VStr (error_id @ '' : '' @ descr))
       (AList.update ''transitioning'' (VStr ''error'') resp)"

text \<open>
  The \<^verbatim>\<open>except Exception\<close> handler (lines 106 to 119). Nothing catches what
  \<^verbatim>\<open>publisher.publish\<close> raises here.
\<close>

definition on_unknown :: "string option \<Rightarrow> worker_env \<Rightarrow> string \<Rightarrow> request option \<Rightarrow> agent_state
    \<Rightarrow> loop_ctl \<times> agent_state" where
  "on_unknown ppid env descr req s =
     (let error_id = uuid4 env;
          s1 = log_to (Log_exception (error_id @ '' : Unknown error'')) s
      in case alive_or_break ppid env s1 of
           (Continue, s2) \<Rightarrow>
             (case req of
                None \<Rightarrow> (Continue, s2)
              | Some r \<Rightarrow>
                  (case reply env r None of
                     None \<Rightarrow> (Continue, s2)
                   | Some resp \<Rightarrow>
                       (case publish_to env (error_reply error_id descr resp) s2 of
                          (None, s3) \<Rightarrow> (Continue, s3)
                        | (Some f, s3) \<Rightarrow> (Raise f, s3))))
         | (c, s2) \<Rightarrow> (c, s2))"

text \<open>
  One iteration of \<^verbatim>\<open>while True\<close>: the \<^verbatim>\<open>try\<close> block, then the first
  \<^verbatim>\<open>except\<close> clause that matches. In the \<^verbatim>\<open>FailedToLock\<close> handler,
  \<^verbatim>\<open>req.name\<close> on \<^verbatim>\<open>req = None\<close> raises \<^verbatim>\<open>AttributeError\<close>.
\<close>

definition worker_iter :: "string \<Rightarrow> string option \<Rightarrow> worker_env \<Rightarrow> agent_state
    \<Rightarrow> loop_ctl \<times> agent_state" where
  "worker_iter worker_name ppid env s =
     (case worker_try worker_name env s of
        (None, req, s') \<Rightarrow> (Continue, s')
      | (Some Empty, req, s') \<Rightarrow> alive_or_break ppid env s'
      | (Some (FailedToLock e), req, s') \<Rightarrow>
          (case req of
             None \<Rightarrow> (Raise (Error ''AttributeError''), s')
           | Some r \<Rightarrow> alive_or_break ppid env (log_to (Log_info (e @ '' for '' @ req_name r)) s'))
      | (Some (Error e), req, s') \<Rightarrow> on_unknown ppid env e req s'
      | (Some (BaseError e), req, s') \<Rightarrow> (Raise (BaseError e), s'))"

text \<open>
  The loop, over the environments of its successive iterations. The list is the part of
  the run before the worker is terminated from outside (\<^verbatim>\<open>child.terminate()\<close>): an
  exhausted list is a worker stopped while still looping.
\<close>

datatype worker_exit = Terminated | Returned | Raised fault

fun worker_main :: "string \<Rightarrow> string option \<Rightarrow> worker_env list \<Rightarrow> agent_state
    \<Rightarrow> worker_exit \<times> agent_state" where
  "worker_main worker_name ppid [] s = (Terminated, s)"
| "worker_main worker_name ppid (env # envs) s =
     (case worker_iter worker_name ppid env s of
        (Continue, s') \<Rightarrow> worker_main worker_name ppid envs s'
      | (Break, s') \<Rightarrow> (Returned, s')
      | (Raise f, s') \<Rightarrow> (Raised f, s'))"

definition worker :: "string \<Rightarrow> string option \<Rightarrow> worker_env list \<Rightarrow> agent_state
    \<Rightarrow> worker_exit \<times> agent_state" where
  "worker worker_name ppid envs s =
     (case worker_main worker_name ppid envs s of
        (Terminated, s') \<Rightarrow> (Terminated, s')
      | (ex, s') \<Rightarrow> (ex, log_to (Log_error (worker_name @ '' : Exiting'')) s'))"

subsection \<open>Progress updates: \<^verbatim>\<open>EventProgress.update\<close>\<close>

text \<open>
  \<^verbatim>\<open>resp['transitioning'] = 'yes'\<close> on \<^verbatim>\<open>resp = None\<close> raises \<^verbatim>\<open>TypeError\<close>;
  the bare \<^verbatim>\<open>except\<close> around \<^verbatim>\<open>publisher.publish\<close> catches everything, and its
  body is \<^verbatim>\<open>pass\<close>.
\<close>

record event_progress =
  progress_req :: request
  progress_parent :: "request option"

definition set_progress :: "val \<Rightarrow> val \<Rightarrow> response \<Rightarrow> response" where
  "set_progress msg progress resp =
     AList.update ''transitioningProgress'' progress
       (AList.update ''transitioningMessage'' msg
          (AList.update ''transitioning'' (VStr ''yes'') resp))"

definition publish_or_pass :: "worker_env \<Rightarrow> response \<Rightarrow> agent_state \<Rightarrow> fault option \<times> agent_state" where
  "publish_or_pass env resp s =
     (case publish_to env resp s of
        (None, s') \<Rightarrow> (None, s')
      | (Some f, s') \<Rightarrow> (None, s'))"

definition update :: "event_progress \<Rightarrow> worker_env \<Rightarrow> val \<Rightarrow> val \<Rightarrow> val option \<Rightarrow> agent_state
    \<Rightarrow> fault option \<times> agent_state" where
  "update self env msg progress data s =
     (case reply env (progress_req self) data of
        None \<Rightarrow> (Some (Error ''TypeError''), s)
      | Some resp0 \<Rightarrow>
          (let resp1 = set_progress msg progress resp0 in
           case progress_parent self of
             None \<Rightarrow> publish_or_pass env resp1 s
           | Some parent \<Rightarrow>
               (case reply env parent (Some (VDict resp1)) of
                  None \<Rightarrow> (Some (Error ''TypeError''), s)
                | Some resp2 \<Rightarrow> publish_or_pass env (set_progress msg progress resp2) s)))"

subsection \<open>The client: \<^verbatim>\<open>EventClient.__init__\<close>, \<^verbatim>\<open>_start_children\<close>, \<^verbatim>\<open>_run\<close> and \<^verbatim>\<open>run\<close>\<close>

text \<open>
  A credential is a string or an object for \<^verbatim>\<open>requests\<close>. A child is known by the
  name of its worker. \<open>EventClient_run_body\<close> is \<^verbatim>\<open>EventClient._run\<close> and
  \<open>EventClient_run\<close> is \<^verbatim>\<open>EventClient.run\<close>.
\<close>

datatype credential = Auth_string string | Auth_object















subsection \<open>Sample inputs\<close>

text \<open>A heartbeat line, a data line, a filesystem without stamp file, and two requests.\<close>

definition sample_ping :: string where
  "sample_ping = ''{'' @ [CHR 0x22] @ ''name'' @ [CHR 0x22] @ '':'' @ [CHR 0x22] @ ''ping''
     @ [CHR 0x22] @ ''}''"

definition sample_data :: string where
  "sample_data = ''{'' @ [CHR 0x22] @ ''name'' @ [CHR 0x22] @ '':'' @ [CHR 0x22] @ ''start''
     @ [CHR 0x22] @ ''}''"

definition no_stamp :: fs_obs where
  "no_stamp = \<lparr>stamp_mtime = None, proc_exists = True\<rparr>"

definition stamp_at :: "mtime \<Rightarrow> fs_obs" where
  "stamp_at t = \<lparr>stamp_mtime = Some t, proc_exists = True\<rparr>"

definition sample_config :: config where
  "sample_config = \<lparr>max_dropped_requests = 5, max_dropped_ping = 1\<rparr>"

definition item :: "string \<Rightarrow> bool \<Rightarrow> stream_item" where
  "item ln full = \<lparr>raw_line = ln, put_full = full, line_obs = no_stamp\<rparr>"

text \<open>
  A request, its parent, and environments of one worker iteration: the executor raises
  an unknown fault; the same with \<^verbatim>\<open>utils.reply\<close> answering \<^verbatim>\<open>None\<close>; the
  same with a publisher that raises; the executor raises \<^verbatim>\<open>FailedToLock\<close>. The sample
  reply carries the id of the request it answers and the data it was given.
\<close>

definition sample_request :: request where
  "sample_request = \<lparr>req_id = ''r1'', req_name = ''instance.start'', req_data = VNone\<rparr>"


definition sample_reply :: "request \<Rightarrow> val option \<Rightarrow> response option" where
  "sample_reply r d =
     Some [(''previousIds'', VStr (req_id r)),
           (''data'', case d of None \<Rightarrow> VNone | Some v \<Rightarrow> v)]"

definition no_reply :: "request \<Rightarrow> val option \<Rightarrow> response option" where
  "no_reply r d = None"

definition env_unknown_fault :: worker_env where
  "env_unknown_fault =
     \<lparr>queue_get = Inr sample_data, from_string = (\<lambda>l. Inr sample_request),
      execute = (\<lambda>r. Inl (Error ''boom'')), publish = (\<lambda>r. None),
      reply = sample_reply, uuid4 = ''e42'', worker_obs = no_stamp\<rparr>"

definition env_no_reply :: worker_env where
  "env_no_reply = env_unknown_fault\<lparr>reply := no_reply\<rparr>"

definition env_publish_down :: worker_env where
  "env_publish_down = env_unknown_fault\<lparr>publish := (\<lambda>r. Some (Error ''connection refused''))\<rparr>"

definition env_locked :: worker_env where
  "env_locked = env_unknown_fault\<lparr>execute := (\<lambda>r. Inl (FailedToLock ''lock held''))\<rparr>"




section \<open>Properties\<close>

subsection \<open>Liveness\<close>

lemma check_ts_cached:
  "stamp_ts s = Some c \<Longrightarrow> check_ts stamp s = (stamp = None \<or> stamp = Some c, s)"
  by (cases stamp) (auto simp: check_ts_def)

lemma check_ts_frame:
  "check_ts stamp s = (b, s') \<Longrightarrow>
     drop_count s' = drop_count s \<and> ping_drop s' = ping_drop s \<and> queue s' = queue s
     \<and> ping_queue s' = ping_queue s \<and> published s' = published s \<and> logged s' = logged s"
  by (cases stamp) (auto simp: check_ts_def split: if_splits)

lemma should_run_frame:
  "should_run pid obs s = (b, s') \<Longrightarrow>
     drop_count s' = drop_count s \<and> ping_drop s' = ping_drop s \<and> queue s' = queue s
     \<and> ping_queue s' = ping_queue s \<and> published s' = published s \<and> logged s' = logged s"
  using check_ts_frame [of "stamp_mtime obs" s]
  by (cases "check_ts (stamp_mtime obs) s") (auto simp: should_run_def split: if_splits option.splits)

lemma check_ts_stamp_only:
  "stamp_ts s = stamp_ts t \<Longrightarrow> fst (check_ts stamp s) = fst (check_ts stamp t)"
  by (cases stamp) (auto simp: check_ts_def)

lemma should_run_stamp_only:
  "stamp_ts s = stamp_ts t \<Longrightarrow> fst (should_run pid obs s) = fst (should_run pid obs t)"
  using check_ts_stamp_only [of s t "stamp_mtime obs"]
  by (cases "check_ts (stamp_mtime obs) s"; cases "check_ts (stamp_mtime obs) t")
     (auto simp: should_run_def split: option.splits)

lemma should_run_cached:
  "stamp_ts s = Some c \<Longrightarrow>
     should_run pid obs s =
       ((stamp_mtime obs = None \<or> stamp_mtime obs = Some c) \<and> (pid = None \<or> proc_exists obs), s)"
  by (auto simp: should_run_def check_ts_cached split: option.splits)

lemma should_run_first:
  "stamp_ts s = None \<Longrightarrow>
     should_run pid obs s =
       (pid = None \<or> proc_exists obs,
        case stamp_mtime obs of None \<Rightarrow> s | Some t \<Rightarrow> s\<lparr>stamp_ts := Some t\<rparr>)"
  by (auto simp: should_run_def check_ts_def split: option.splits)

lemma should_run_seq_cached:
  "stamp_ts s = Some c \<Longrightarrow>
     should_run_seq pid obs s =
       (map (\<lambda>ob. (stamp_mtime ob = None \<or> stamp_mtime ob = Some c)
                  \<and> (pid = None \<or> proc_exists ob)) obs, s)"
  by (induction obs) (simp_all add: should_run_cached)

text \<open>
  C2, as stated, fails: the stamp file is seen with modification time 1 (cached), then
  2 (the check fails), then 1 again, and the third check passes. Nothing in
  \<^verbatim>\<open>_check_ts\<close> records that a check has failed.
\<close>

theorem liveness_not_latched:
  "fst (should_run_seq None [stamp_at 1, stamp_at 2, stamp_at 1] init_state) = [True, False, True]"
  by (simp add: should_run_def check_ts_def init_state_def stamp_at_def)

text \<open>
  C2 (amended): the first check that finds the stamp file caches its modification time
  and passes the stamp test; from then on the cached value never changes, and every later
  check passes exactly when the stamp file is absent or has the cached modification time
  (and, with a parent pid, the parent exists). So a check fails whenever the time differs
  from the cached one, and passes again once it no longer differs.
\<close>

theorem liveness_generation_cached_once:
  "(stamp_ts s = None \<longrightarrow>
      should_run pid \<lparr>stamp_mtime = Some t, proc_exists = pe\<rparr> s
        = (pid = None \<or> pe, s\<lparr>stamp_ts := Some t\<rparr>))
   \<and> (stamp_ts s = Some c \<longrightarrow>
      should_run_seq pid obs s =
        (map (\<lambda>ob. (stamp_mtime ob = None \<or> stamp_mtime ob = Some c)
                   \<and> (pid = None \<or> proc_exists ob)) obs, s))"
  by (simp add: should_run_first should_run_seq_cached)

theorem liveness_generation_cached_once_witness:
  "should_run None \<lparr>stamp_mtime = Some 1, proc_exists = True\<rparr> init_state
     = (True, init_state\<lparr>stamp_ts := Some 1\<rparr>)
   \<and> should_run_seq None [stamp_at 2, stamp_at 1, no_stamp, stamp_at 3]
        (init_state\<lparr>stamp_ts := Some 1\<rparr>)
     = ([False, True, True, False], init_state\<lparr>stamp_ts := Some 1\<rparr>)"
  using liveness_generation_cached_once [of init_state None 1 True 1 "[]"]
    liveness_generation_cached_once
      [of "init_state\<lparr>stamp_ts := Some 1\<rparr>" None 1 True 1
          "[stamp_at 2, stamp_at 1, no_stamp, stamp_at 3]"]
  by (simp add: init_state_def stamp_at_def no_stamp_def)

subsection \<open>The read loop\<close>

lemma check_alive_frame:
  "check_alive ppid obs s = (c, s') \<Longrightarrow>
     drop_count s' = drop_count s \<and> ping_drop s' = ping_drop s \<and> queue s' = queue s
     \<and> ping_queue s' = ping_queue s \<and> published s' = published s"
  using should_run_frame [of ppid obs s]
  by (cases "should_run ppid obs s") (auto simp: check_alive_def log_to_def split: if_splits)

lemma check_alive_ctl:
  "fst (check_alive ppid obs s) = (if fst (should_run ppid obs s) then Continue else Break)"
  by (cases "should_run ppid obs s") (auto simp: check_alive_def)

lemma on_full_ctl:
  "fst (on_full cfg ln s) =
     (if drop_count s + 1 > (if contains ping_marker ln then max_dropped_ping cfg
                              else max_dropped_requests cfg) then Break else Continue)"
  by (simp add: on_full_def log_to_def Let_def)

lemma on_full_counters:
  "on_full cfg ln s = (c, s') \<Longrightarrow>
     drop_count s' = drop_count s + 1
     \<and> ping_drop s' = (if contains ping_marker ln then ping_drop s + 1 else ping_drop s)
     \<and> queue s' = queue s \<and> ping_queue s' = ping_queue s \<and> stamp_ts s' = stamp_ts s
     \<and> published s' = published s"
  by (auto simp: on_full_def log_to_def Let_def split: if_splits)

lemma read_line_full:
  assumes "put_full it" "strip (raw_line it) \<noteq> []"
  shows "read_line cfg ppid it s =
     (case on_full cfg (strip (raw_line it)) s of
        (Continue, s2) \<Rightarrow> check_alive ppid (line_obs it) s2 | (c, s2) \<Rightarrow> (c, s2))"
  using assms by (simp add: read_line_def enqueue_line_def Let_def)

lemma read_line_not_full:
  assumes "\<not> (put_full it \<and> strip (raw_line it) \<noteq> [])"
  shows "read_line cfg ppid it s =
     check_alive ppid (line_obs it) (snd (enqueue_line (strip (raw_line it)) (put_full it) s))"
  using assms by (auto simp add: read_line_def enqueue_line_def Let_def)

text \<open>What one iteration does to the counters and to the two queues.\<close>

lemma read_line_fields:
  "drop_count (snd (read_line cfg ppid it s)) =
     (if put_full it \<and> strip (raw_line it) \<noteq> [] then drop_count s + 1 else drop_count s)"
  "ping_drop (snd (read_line cfg ppid it s)) =
     (if strip (raw_line it) \<noteq> [] \<and> contains ping_marker (strip (raw_line it))
      then (if put_full it then ping_drop s + 1 else 0) else ping_drop s)"
  "ping_queue (snd (read_line cfg ppid it s)) =
     ping_queue s @ (if strip (raw_line it) \<noteq> [] \<and> contains ping_marker (strip (raw_line it))
                        \<and> \<not> put_full it then [strip (raw_line it)] else [])"
  "queue (snd (read_line cfg ppid it s)) =
     queue s @ (if strip (raw_line it) \<noteq> [] \<and> \<not> contains ping_marker (strip (raw_line it))
                   \<and> \<not> put_full it then [strip (raw_line it)] else [])"
proof -
  let ?ln = "strip (raw_line it)"
  let ?r = "snd (read_line cfg ppid it s)"
  have "drop_count ?r = (if put_full it \<and> ?ln \<noteq> [] then drop_count s + 1 else drop_count s)
    \<and> ping_drop ?r = (if ?ln \<noteq> [] \<and> contains ping_marker ?ln
         then (if put_full it then ping_drop s + 1 else 0) else ping_drop s)
    \<and> ping_queue ?r = ping_queue s
         @ (if ?ln \<noteq> [] \<and> contains ping_marker ?ln \<and> \<not> put_full it then [?ln] else [])
    \<and> queue ?r = queue s
         @ (if ?ln \<noteq> [] \<and> \<not> contains ping_marker ?ln \<and> \<not> put_full it then [?ln] else [])"
  proof (cases "put_full it \<and> ?ln \<noteq> []")
    case True
    obtain c s2 where o: "on_full cfg ?ln s = (c, s2)"
      by (cases "on_full cfg ?ln s")
    obtain c' s3 where a: "check_alive ppid (line_obs it) s2 = (c', s3)"
      by (cases "check_alive ppid (line_obs it) s2")
    from on_full_counters [OF o] check_alive_frame [OF a] True o a show ?thesis
      by (cases c) (simp_all add: read_line_full)
  next
    case False
    let ?s1 = "snd (enqueue_line ?ln (put_full it) s)"
    obtain c' s3 where a: "check_alive ppid (line_obs it) ?s1 = (c', s3)"
      by (cases "check_alive ppid (line_obs it) ?s1")
    from check_alive_frame [OF a] False a show ?thesis
      by (auto simp add: read_line_not_full enqueue_line_def Let_def)
  qed
  then show
    "drop_count ?r = (if put_full it \<and> ?ln \<noteq> [] then drop_count s + 1 else drop_count s)"
    "ping_drop ?r = (if ?ln \<noteq> [] \<and> contains ping_marker ?ln
         then (if put_full it then ping_drop s + 1 else 0) else ping_drop s)"
    "ping_queue ?r = ping_queue s
         @ (if ?ln \<noteq> [] \<and> contains ping_marker ?ln \<and> \<not> put_full it then [?ln] else [])"
    "queue ?r = queue s
         @ (if ?ln \<noteq> [] \<and> \<not> contains ping_marker ?ln \<and> \<not> put_full it then [?ln] else [])"
    by simp_all
qed

lemma read_line_full_ctl:
  assumes "put_full it" "strip (raw_line it) \<noteq> []"
  shows "fst (read_line cfg ppid it s) = Break \<longleftrightarrow>
     drop_count s + 1 > (if contains ping_marker (strip (raw_line it)) then max_dropped_ping cfg
                         else max_dropped_requests cfg)
     \<or> \<not> fst (should_run ppid (line_obs it) s)"
proof -
  obtain c s2 where o: "on_full cfg (strip (raw_line it)) s = (c, s2)"
    by (cases "on_full cfg (strip (raw_line it)) s")
  have st: "stamp_ts s2 = stamp_ts s" using on_full_counters [OF o] by simp
  have c: "c = (if drop_count s + 1 > (if contains ping_marker (strip (raw_line it))
                   then max_dropped_ping cfg else max_dropped_requests cfg)
                then Break else Continue)"
    using on_full_ctl [of cfg "strip (raw_line it)" s] o by simp
  show ?thesis
    using assms o c should_run_stamp_only [OF st, of ppid "line_obs it"]
    by (simp add: read_line_full check_alive_ctl)
qed

lemma read_loop_drop_count_mono:
  "drop_count s \<le> drop_count (snd (read_loop cfg ppid its fin s))"
proof (induction its arbitrary: s)
  case Nil
  show ?case by simp
next
  case (Cons it its)
  obtain c s1 where r: "read_line cfg ppid it s = (c, s1)"
    by (cases "read_line cfg ppid it s")
  have le: "drop_count s \<le> drop_count s1"
    using read_line_fields(1) [of cfg ppid it s] r by (simp split: if_splits)
  show ?case
  proof (cases c)
    case Continue
    with r le Cons.IH [of s1] show ?thesis by simp
  next
    case Break
    with r le show ?thesis by simp
  next
    case (Raise f)
    with r le show ?thesis by simp
  qed
qed

lemma read_loop_routing:
  "\<exists>ps ds. ping_queue (snd (read_loop cfg ppid its fin s)) = ping_queue s @ ps
      \<and> queue (snd (read_loop cfg ppid its fin s)) = queue s @ ds
      \<and> (\<forall>l \<in> set ps. l \<noteq> [] \<and> contains ping_marker l
            \<and> l \<in> (\<lambda>it. strip (raw_line it)) ` set its)
      \<and> (\<forall>l \<in> set ds. l \<noteq> [] \<and> \<not> contains ping_marker l
            \<and> l \<in> (\<lambda>it. strip (raw_line it)) ` set its)"
proof (induction its arbitrary: s)
  case Nil
  show ?case by simp
next
  case (Cons it its)
  let ?ln = "strip (raw_line it)"
  let ?P = "\<lambda>xs ps ds.
      (\<forall>l \<in> set ps. l \<noteq> [] \<and> contains ping_marker l \<and> l \<in> (\<lambda>it. strip (raw_line it)) ` set xs)
      \<and> (\<forall>l \<in> set ds. l \<noteq> [] \<and> \<not> contains ping_marker l
            \<and> l \<in> (\<lambda>it. strip (raw_line it)) ` set xs)"
  obtain c s1 where r: "read_line cfg ppid it s = (c, s1)"
    by (cases "read_line cfg ppid it s")
  define p1 where
    "p1 = (if ?ln \<noteq> [] \<and> contains ping_marker ?ln \<and> \<not> put_full it then [?ln] else [])"
  define d1 where
    "d1 = (if ?ln \<noteq> [] \<and> \<not> contains ping_marker ?ln \<and> \<not> put_full it then [?ln] else [])"
  have q1: "ping_queue s1 = ping_queue s @ p1" "queue s1 = queue s @ d1"
    using read_line_fields(3,4) [of cfg ppid it s] r by (simp_all add: p1_def d1_def)
  have P1: "?P (it # its) p1 d1" by (simp add: p1_def d1_def)
  show ?case
  proof (cases c)
    case Continue
    from Cons.IH [of s1] obtain ps ds where
      t: "ping_queue (snd (read_loop cfg ppid its fin s1)) = ping_queue s1 @ ps"
         "queue (snd (read_loop cfg ppid its fin s1)) = queue s1 @ ds" "?P its ps ds"
      by blast
    have "?P (it # its) (p1 @ ps) (d1 @ ds)"
      using P1 t(3) by auto
    with t(1,2) q1 r Continue show ?thesis
      by (intro exI [of _ "p1 @ ps"] exI [of _ "d1 @ ds"]) simp
  next
    case Break
    with q1 r P1 show ?thesis
      by (intro exI [of _ p1] exI [of _ d1]) simp
  next
    case (Raise f)
    with q1 r P1 show ?thesis
      by (intro exI [of _ p1] exI [of _ d1]) simp
  qed
qed

lemma sample_lines:
  "strip sample_ping = sample_ping" "strip sample_data = sample_data"
  "contains ping_marker sample_ping" "\<not> contains ping_marker sample_data"
  "sample_ping \<noteq> []" "sample_data \<noteq> []" "strip [] = []"
  by (simp_all add: strip_def is_space_def sample_ping_def sample_data_def ping_marker_def)

text \<open>
  C1 (the code differs): a heartbeat is dropped, the next heartbeat is accepted (which
  resets \<^verbatim>\<open>ping_drop\<close>), and a third heartbeat is dropped, with a heartbeat maximum
  of 1. The ping-specific counter stands at 1 and does not exceed the maximum, yet the loop
  stops there: the comparison reads \<^verbatim>\<open>drop_count\<close>, which stands at 2, and the data
  line that follows is never enqueued.
\<close>

theorem ping_overflow_compares_aggregate_count:
  "read_loop sample_config None
     [item sample_ping True, item sample_ping False, item sample_ping True,
      item sample_data False] None init_state
   = (None, init_state\<lparr>drop_count := 2, ping_drop := 1, ping_queue := [sample_ping],
        logged := [Log_info (''Dropping request '' @ sample_ping),
                   Log_info (''Dropping request '' @ sample_ping),
                   Log_error ''Max dropped requests exceeded'']\<rparr>)"
  by (simp add: read_line_def enqueue_line_def on_full_def check_alive_def should_run_def
      check_ts_def log_to_def item_def no_stamp_def sample_config_def init_state_def
      sample_lines Let_def)

text \<open>
  C5: whatever the ping drop counter is, an iteration whose non-blocking \<^verbatim>\<open>put\<close> of a
  non-empty heartbeat line succeeds leaves the counter at zero, with the line at the end of
  the ping queue; an iteration whose \<^verbatim>\<open>put\<close> of a data line succeeds leaves the counter
  as it was, with the line at the end of the data queue.
\<close>

theorem ping_enqueue_resets_ping_drop:
  assumes "strip (raw_line it) = ln" and "ln \<noteq> []" and "\<not> put_full it"
    and "read_line cfg ppid it s = (c, s')"
  shows "(contains ping_marker ln \<longrightarrow>
            ping_drop s' = 0 \<and> ping_queue s' = ping_queue s @ [ln] \<and> queue s' = queue s)
       \<and> (\<not> contains ping_marker ln \<longrightarrow>
            ping_drop s' = ping_drop s \<and> queue s' = queue s @ [ln]
            \<and> ping_queue s' = ping_queue s)"
  using assms read_line_fields(2,3,4) [of cfg ppid it s] by auto

theorem ping_enqueue_resets_ping_drop_witness:
  "ping_drop (snd (read_line sample_config None (item sample_ping False)
       (init_state\<lparr>ping_drop := 3\<rparr>))) = 0
   \<and> ping_drop (snd (read_line sample_config None (item sample_data False)
       (init_state\<lparr>ping_drop := 3\<rparr>))) = 3"
  using
    ping_enqueue_resets_ping_drop [of "item sample_ping False" sample_ping sample_config None
      "init_state\<lparr>ping_drop := 3\<rparr>"
      "fst (read_line sample_config None (item sample_ping False) (init_state\<lparr>ping_drop := 3\<rparr>))"
      "snd (read_line sample_config None (item sample_ping False) (init_state\<lparr>ping_drop := 3\<rparr>))"]
    ping_enqueue_resets_ping_drop [of "item sample_data False" sample_data sample_config None
      "init_state\<lparr>ping_drop := 3\<rparr>"
      "fst (read_line sample_config None (item sample_data False) (init_state\<lparr>ping_drop := 3\<rparr>))"
      "snd (read_line sample_config None (item sample_data False) (init_state\<lparr>ping_drop := 3\<rparr>))"]
  by (simp add: item_def sample_lines init_state_def)

text \<open>
  C7: in one iteration, a non-empty line with the marker goes to the end of the ping queue
  and nowhere else, a non-empty line without it goes to the end of the data queue and
  nowhere else (both when the \<^verbatim>\<open>put\<close> succeeds), and nothing else is enqueued. So over
  any sequence of lines, what the loop adds to the ping queue are non-empty lines of the
  stream with the marker, and what it adds to the data queue are non-empty lines of the
  stream without it.
\<close>

theorem lines_routed_by_marker:
  "ping_queue (snd (read_line cfg ppid it s)) =
     ping_queue s @ (if strip (raw_line it) \<noteq> [] \<and> contains ping_marker (strip (raw_line it))
                        \<and> \<not> put_full it then [strip (raw_line it)] else [])
   \<and> queue (snd (read_line cfg ppid it s)) =
     queue s @ (if strip (raw_line it) \<noteq> [] \<and> \<not> contains ping_marker (strip (raw_line it))
                   \<and> \<not> put_full it then [strip (raw_line it)] else [])
   \<and> (\<exists>ps ds. ping_queue (snd (read_loop cfg ppid its fin s)) = ping_queue s @ ps
      \<and> queue (snd (read_loop cfg ppid its fin s)) = queue s @ ds
      \<and> (\<forall>l \<in> set ps. l \<noteq> [] \<and> contains ping_marker l
            \<and> l \<in> (\<lambda>it. strip (raw_line it)) ` set its)
      \<and> (\<forall>l \<in> set ds. l \<noteq> [] \<and> \<not> contains ping_marker l
            \<and> l \<in> (\<lambda>it. strip (raw_line it)) ` set its))"
  using read_line_fields(3,4) [of cfg ppid it s] read_loop_routing [of cfg ppid its fin s]
  by simp

theorem lines_routed_by_marker_witness:
  "ping_queue (snd (read_line sample_config None (item sample_ping False) init_state))
     = [sample_ping]
   \<and> queue (snd (read_line sample_config None (item sample_ping False) init_state)) = []
   \<and> (\<exists>ps ds. ping_queue (snd (read_loop sample_config None
          [item sample_data False, item sample_ping False, item [] False] None init_state)) = ps
      \<and> queue (snd (read_loop sample_config None
          [item sample_data False, item sample_ping False, item [] False] None init_state)) = ds
      \<and> (\<forall>l \<in> set ps. contains ping_marker l) \<and> (\<forall>l \<in> set ds. \<not> contains ping_marker l))"
  using lines_routed_by_marker [of sample_config None "item sample_ping False" init_state
      "[item sample_data False, item sample_ping False, item [] False]" None]
  by (simp add: item_def sample_lines init_state_def)

text \<open>
  C10: an iteration in which the \<^verbatim>\<open>put\<close> raises \<^verbatim>\<open>Full\<close> adds one to
  \<^verbatim>\<open>drop_count\<close>, for a heartbeat as for a data line, and the loop stops at that
  iteration exactly when the new \<^verbatim>\<open>drop_count\<close> exceeds the maximum of the line's kind
  or the liveness check fails; no iteration decreases \<^verbatim>\<open>drop_count\<close>, so over the
  whole loop it never goes down.
\<close>

theorem aggregate_drop_count_monotone:
  "(put_full it \<and> strip (raw_line it) \<noteq> [] \<longrightarrow>
      drop_count (snd (read_line cfg ppid it s)) = drop_count s + 1
      \<and> (fst (read_line cfg ppid it s) = Break \<longleftrightarrow>
           drop_count s + 1 > (if contains ping_marker (strip (raw_line it))
                               then max_dropped_ping cfg else max_dropped_requests cfg)
           \<or> \<not> fst (should_run ppid (line_obs it) s)))
   \<and> (\<not> (put_full it \<and> strip (raw_line it) \<noteq> []) \<longrightarrow>
      drop_count (snd (read_line cfg ppid it s)) = drop_count s)
   \<and> drop_count s \<le> drop_count (snd (read_loop cfg ppid its fin s))"
  using read_line_fields(1) [of cfg ppid it s] read_line_full_ctl [of it cfg ppid s]
    read_loop_drop_count_mono [of s cfg ppid its fin]
  by simp

theorem aggregate_drop_count_monotone_witness:
  "drop_count (snd (read_line sample_config None (item sample_ping True)
       (init_state\<lparr>drop_count := 1\<rparr>))) = 2
   \<and> fst (read_line sample_config None (item sample_ping True)
       (init_state\<lparr>drop_count := 1\<rparr>)) = Break
   \<and> drop_count (snd (read_line sample_config None (item sample_data False)
       (init_state\<lparr>drop_count := 1\<rparr>))) = 1
   \<and> 1 \<le> drop_count (snd (read_loop sample_config None
       [item sample_data True, item sample_ping True] None (init_state\<lparr>drop_count := 1\<rparr>)))"
  using
    aggregate_drop_count_monotone [of "item sample_ping True" sample_config None
      "init_state\<lparr>drop_count := 1\<rparr>" "[item sample_data True, item sample_ping True]" None]
    aggregate_drop_count_monotone [of "item sample_data False" sample_config None
      "init_state\<lparr>drop_count := 1\<rparr>" "[]" None]
  by (simp add: item_def sample_lines init_state_def sample_config_def should_run_def
      check_ts_def no_stamp_def)

subsection \<open>The worker\<close>

lemma alive_or_break_eq:
  "alive_or_break ppid env s =
     (if fst (should_run ppid (worker_obs env) s) then Continue else Break,
      snd (should_run ppid (worker_obs env) s))"
  by (cases "should_run ppid (worker_obs env) s") (simp add: alive_or_break_def)

lemma alive_or_break_frame:
  "alive_or_break ppid env s = (c, s') \<Longrightarrow>
     drop_count s' = drop_count s \<and> ping_drop s' = ping_drop s \<and> queue s' = queue s
     \<and> ping_queue s' = ping_queue s \<and> published s' = published s \<and> logged s' = logged s"
  using should_run_frame [of ppid "worker_obs env" s]
  by (cases "should_run ppid (worker_obs env) s") (auto simp: alive_or_break_def)

lemma worker_try_frame:
  "worker_try wn env s = (f, req, s1) \<Longrightarrow>
     stamp_ts s1 = stamp_ts s \<and> drop_count s1 = drop_count s \<and> ping_drop s1 = ping_drop s
     \<and> queue s1 = queue s \<and> ping_queue s1 = ping_queue s"
  by (auto simp: worker_try_def publish_to_def log_to_def Let_def
      split: sum.splits option.splits prod.splits)

lemma map_of_error_reply:
  "map_of (error_reply i e resp) k =
     (if k = ''transitioningInternalMessage'' then Some (VStr (i @ '' : '' @ e))
      else if k = ''transitioning'' then Some (VStr ''error'')
      else map_of resp k)"
  by (simp add: error_reply_def update_conv)

lemma on_unknown_alive:
  assumes "fst (should_run ppid (worker_obs env) s)"
  shows "published (snd (on_unknown ppid env e req s)) =
     published s @ (case req of None \<Rightarrow> []
        | Some r \<Rightarrow> (case reply env r None of None \<Rightarrow> []
            | Some resp \<Rightarrow> [error_reply (uuid4 env) e resp]))"
proof -
  let ?s1 = "log_to (Log_exception (uuid4 env @ '' : Unknown error'')) s"
  have "stamp_ts ?s1 = stamp_ts s" by (simp add: log_to_def)
  from should_run_stamp_only [OF this, of ppid "worker_obs env"] assms
  have al: "fst (should_run ppid (worker_obs env) ?s1)" by simp
  obtain b s2 where sr: "should_run ppid (worker_obs env) ?s1 = (b, s2)"
    by (cases "should_run ppid (worker_obs env) ?s1")
  from should_run_frame [OF sr] have p: "published s2 = published s"
    by (simp add: log_to_def)
  from al sr have b by simp
  with sr p show ?thesis
    by (auto simp: on_unknown_def alive_or_break_def publish_to_def Let_def
        split: option.splits prod.splits)
qed

text \<open>
  C3, as stated, fails: a request is decoded, the executor raises an unknown fault,
  liveness holds, and \<^verbatim>\<open>utils.reply\<close> answers \<^verbatim>\<open>None\<close>; the handler's test
  \<^verbatim>\<open>if resp is not None\<close> then skips the publication, and the worker goes on.
\<close>

theorem unknown_fault_without_reply:
  "fst (worker_try ''worker0'' env_no_reply init_state) = Some (Error ''boom'')
   \<and> fst (snd (worker_try ''worker0'' env_no_reply init_state)) = Some sample_request
   \<and> fst (should_run None (worker_obs env_no_reply) init_state)
   \<and> fst (worker_iter ''worker0'' None env_no_reply init_state) = Continue
   \<and> published (snd (worker_iter ''worker0'' None env_no_reply init_state)) = []"
  by (simp add: worker_iter_def worker_try_def on_unknown_def alive_or_break_def should_run_def
      check_ts_def log_to_def env_no_reply_def env_unknown_fault_def no_reply_def no_stamp_def
      init_state_def Let_def)

text \<open>
  C3 (amended): when the \<^verbatim>\<open>try\<close> block of an iteration raises an exception of the
  catch-all class (neither \<^verbatim>\<open>Empty\<close> nor \<^verbatim>\<open>FailedToLock\<close>) and liveness holds, the
  handler hands to the publisher exactly this: nothing if no request was decoded,
  nothing if \<^verbatim>\<open>utils.reply\<close> answers \<^verbatim>\<open>None\<close> for the request, and otherwise the
  reply to the request with \<^verbatim>\<open>transitioning\<close> set to \<^verbatim>\<open>error\<close> and
  \<^verbatim>\<open>transitioningInternalMessage\<close> set to the fresh error id, \<^verbatim>\<open> : \<close> and the
  fault's text, every other key as \<^verbatim>\<open>utils.reply\<close> gave it.
\<close>

theorem unknown_fault_error_reply:
  assumes "worker_try wn env s = (Some (Error e), req, s1)"
    and "fst (should_run ppid (worker_obs env) s)"
  shows "published (snd (worker_iter wn ppid env s)) =
           published s1 @ (case req of None \<Rightarrow> []
              | Some r \<Rightarrow> (case reply env r None of None \<Rightarrow> []
                  | Some resp \<Rightarrow> [error_reply (uuid4 env) e resp]))
       \<and> (\<forall>resp k. map_of (error_reply (uuid4 env) e resp) k =
             (if k = ''transitioningInternalMessage'' then Some (VStr (uuid4 env @ '' : '' @ e))
              else if k = ''transitioning'' then Some (VStr ''error'')
              else map_of resp k))"
proof -
  from worker_try_frame [OF assms(1)] have "stamp_ts s1 = stamp_ts s" by simp
  from should_run_stamp_only [OF this, of ppid "worker_obs env"] assms(2)
  have "fst (should_run ppid (worker_obs env) s1)" by simp
  from on_unknown_alive [OF this, of e req] assms(1) show ?thesis
    by (simp add: worker_iter_def map_of_error_reply)
qed

theorem unknown_fault_error_reply_witness:
  "published (snd (worker_iter ''worker0'' None env_unknown_fault init_state)) =
     [[(''previousIds'', VStr ''r1''), (''data'', VNone), (''transitioning'', VStr ''error''),
       (''transitioningInternalMessage'', VStr ''e42 : boom'')]]"
  using unknown_fault_error_reply [of "''worker0''" env_unknown_fault init_state "''boom''"
      "Some sample_request"
      "snd (snd (worker_try ''worker0'' env_unknown_fault init_state))" None]
  by (simp add: worker_try_def should_run_def check_ts_def log_to_def env_unknown_fault_def
      sample_reply_def sample_request_def no_stamp_def init_state_def error_reply_def Let_def)

text \<open>
  C4 (the code differs): a request is decoded, the executor raises an unknown fault,
  liveness holds, and the publisher raises when the handler publishes the error reply.
  No \<^verbatim>\<open>try\<close> surrounds that call, so the exception leaves \<^verbatim>\<open>while True\<close> and
  \<^verbatim>\<open>_worker_main\<close>: the worker exits on this one item, before the next iteration.
\<close>

theorem worker_exits_when_error_publish_fails:
  "fst (should_run None (worker_obs env_publish_down) init_state)
   \<and> fst (worker_main ''worker0'' None [env_publish_down, env_unknown_fault] init_state)
       = Raised (Error ''connection refused'')
   \<and> fst (worker ''worker0'' None [env_publish_down, env_unknown_fault] init_state)
       = Raised (Error ''connection refused'')
   \<and> last (logged (snd (worker ''worker0'' None [env_publish_down, env_unknown_fault] init_state)))
       = Log_error ''worker0 : Exiting''"
  by (simp add: worker_def worker_iter_def worker_try_def on_unknown_def alive_or_break_def
      publish_to_def should_run_def check_ts_def log_to_def env_publish_down_def
      env_unknown_fault_def sample_reply_def no_stamp_def init_state_def Let_def)

text \<open>
  C8: when the executor raises \<^verbatim>\<open>FailedToLock\<close> on a decoded request, the iteration
  hands nothing to the publisher, leaves both drop counters and both queues as they were,
  logs the request, its start, its end and then, at informational level, the fault's text
  with the request's name, and the loop goes on exactly when the liveness check passes.
\<close>

theorem lock_contention_skips_item:
  assumes "queue_get env = Inr line" and "from_string env line = Inr req"
    and "execute env req = Inl (FailedToLock e)"
  shows "fst (worker_iter wn ppid env s) =
           (if fst (should_run ppid (worker_obs env) s) then Continue else Break)
       \<and> published (snd (worker_iter wn ppid env s)) = published s
       \<and> drop_count (snd (worker_iter wn ppid env s)) = drop_count s
       \<and> ping_drop (snd (worker_iter wn ppid env s)) = ping_drop s
       \<and> logged (snd (worker_iter wn ppid env s)) = logged s @
           [Log_request req (''Request: '' @ line),
            Log_request req (wn @ '' : Starting request '' @ req_id req @ '' for '' @ req_name req),
            Log_request req (wn @ '' : Done request '' @ req_id req @ '' for '' @ req_name req),
            Log_info (e @ '' for '' @ req_name req)]"
proof -
  let ?s1 = "log_to (Log_info (e @ '' for '' @ req_name req))
    (log_to (Log_request req (wn @ '' : Done request '' @ req_id req @ '' for '' @ req_name req))
    (log_to (Log_request req (wn @ '' : Starting request '' @ req_id req @ '' for '' @ req_name req))
    (log_to (Log_request req (''Request: '' @ line)) s)))"
  have it: "worker_iter wn ppid env s = alive_or_break ppid env ?s1"
    using assms by (simp add: worker_iter_def worker_try_def Let_def)
  have "stamp_ts ?s1 = stamp_ts s" by (simp add: log_to_def)
  from should_run_stamp_only [OF this, of ppid "worker_obs env"]
  have c: "fst (alive_or_break ppid env ?s1) =
      (if fst (should_run ppid (worker_obs env) s) then Continue else Break)"
    by (simp add: alive_or_break_eq)
  obtain c' s' where a: "alive_or_break ppid env ?s1 = (c', s')"
    by (cases "alive_or_break ppid env ?s1")
  from alive_or_break_frame [OF a] a c it show ?thesis
    by (simp add: log_to_def)
qed

theorem lock_contention_skips_item_witness:
  "fst (worker_iter ''worker0'' None env_locked (init_state\<lparr>drop_count := 2, ping_drop := 1\<rparr>))
     = Continue
   \<and> published (snd (worker_iter ''worker0'' None env_locked
        (init_state\<lparr>drop_count := 2, ping_drop := 1\<rparr>))) = []
   \<and> drop_count (snd (worker_iter ''worker0'' None env_locked
        (init_state\<lparr>drop_count := 2, ping_drop := 1\<rparr>))) = 2
   \<and> ping_drop (snd (worker_iter ''worker0'' None env_locked
        (init_state\<lparr>drop_count := 2, ping_drop := 1\<rparr>))) = 1
   \<and> last (logged (snd (worker_iter ''worker0'' None env_locked
        (init_state\<lparr>drop_count := 2, ping_drop := 1\<rparr>))))
      = Log_info ''lock held for instance.start''"
  using lock_contention_skips_item [of env_locked sample_data sample_request "''lock held''"
      "''worker0''" None "init_state\<lparr>drop_count := 2, ping_drop := 1\<rparr>"]
  by (simp add: env_locked_def env_unknown_fault_def should_run_def check_ts_def no_stamp_def
      init_state_def sample_request_def)

subsection \<open>Progress updates\<close>






subsection \<open>The run\<close>








end
